theory Spec2Isabelle
  imports Complex_Main
begin

section \<open>The charting-library loader (chart-config.js)\<close>

text \<open>
  The file holds two loaders named \<^verbatim>\<open>ApexChartsLoader\<close>: an older one with the strategies
  local, cdn and auto, and the CDN-only one that replaced it. Both are embedded; the
  definitions of the older one carry the suffix \<open>_v1\<close>.

  The texts of the JavaScript errors are Czech. Each text is a constructor of
  \<open>message\<close>; the source reads
  \<^item> \<open>ScriptExistsNoObject\<close>: 'Script existuje, ale ApexCharts objekt neni dostupny',
  \<^item> \<open>TimeoutLoading src\<close>: 'Timeout pri nacitani ' followed by the source,
  \<^item> \<open>NoObjectAfterLoad\<close>: 'ApexCharts objekt neni dostupny po nacteni skriptu',
  \<^item> \<open>ErrorLoading src\<close>: 'Chyba pri nacitani ' followed by the source,
  \<^item> \<open>NoCdnSource\<close>: 'Nepodarilo se nacist Apex Charts z zadneho CDN zdroje'.

  \<open>MissingParameters\<close> is the text of the dashboard's own error,
  'Missing entry_id or inverter_sn parameters'.
\<close>

datatype message =
    ScriptExistsNoObject
  | TimeoutLoading string
  | NoObjectAfterLoad
  | ErrorLoading string
  | NoCdnSource
  | MissingParameters

text \<open>\<open>Error m\<close> is \<^verbatim>\<open>new Error(text)\<close>: the thrown object has a message and nothing
  else. \<open>TypeError\<close> is the error the engine throws when a method is called on a value
  that does not have it.\<close>

datatype js_error = Error message | TypeError

text \<open>What the loaders write to the console. \<open>WarnFailed s e\<close> is the warning that
  source \<open>s\<close> failed with the error \<open>e\<close> (the CDN-only loader prints the message of
  \<open>e\<close>, the older one the error itself); \<open>LogNextSource\<close> is printed whether \<open>debug\<close>
  is on or not, the other log lines only when it is on.\<close>

datatype console_entry =
    LogAlreadyLoaded
  | LogTrying string
  | LogLoaded string
  | LogNextSource
  | LogLoadedLocally
  | LogLoadedFromCdn
  | WarnFailed string js_error
  | WarnLocalUnavailable

text \<open>\<^verbatim>\<open>window.OIG_CHART_CONFIG\<close>. The first three fields are those of the CDN-only
  loader; \<open>loadStrategy\<close> and \<open>localPath\<close> belong to the older one.\<close>

record chart_config =
  cdnSources :: "string list"
  loadTimeout :: nat
  debug :: bool
  loadStrategy :: string
  localPath :: string

text \<open>
  The part of the page the loader reads and writes:
  \<^item> \<open>apexCharts\<close>: \<^verbatim>\<open>window.ApexCharts\<close> is present;
  \<^item> \<open>scripts\<close>: the \<^verbatim>\<open>src\<close> of the script elements that are in the document, in
    document order;
  \<^item> \<open>fetched\<close>: every source for which a script element was appended to the head, oldest
    first (appending the element is what starts the network fetch);
  \<^item> \<open>console\<close>: the console output, oldest first.
\<close>

record page =
  apexCharts :: bool
  scripts :: "string list"
  fetched :: "string list"
  console :: "console_entry list"

text \<open>How the fetch of one script element ends: its load event (the flag says whether the
  script defined the global), its error event, or the timer of \<open>loadTimeout\<close> firing first.\<close>

datatype net_event = OnLoad bool | OnError | OnTimeout

type_synonym network = "string \<Rightarrow> net_event"

type_synonym outcome = "js_error + unit"

definition emit :: "console_entry \<Rightarrow> page \<Rightarrow> page" where
  "emit e st = st\<lparr>console := console st @ [e]\<rparr>"

definition emit_if :: "bool \<Rightarrow> console_entry \<Rightarrow> page \<Rightarrow> page" where
  "emit_if b e st = (if b then emit e st else st)"

subsection \<open>loadScript of the CDN-only loader\<close>

text \<open>
  The promise executor runs synchronously up to \<^verbatim>\<open>appendChild\<close>; the three handlers run
  later. \<open>loadScript_begin\<close> is the synchronous part: the promise is settled at once
  (\<open>Settled\<close>) when a script element with this source is already in the document, and is
  left pending otherwise. \<open>loadScript_event\<close> is the handler that settles a pending promise.
\<close>

datatype begun = Settled outcome | Pending

definition loadScript_begin :: "string \<Rightarrow> page \<Rightarrow> begun \<times> page" where
  "loadScript_begin src st =
     (if src \<in> set (scripts st) then
        (if apexCharts st then (Settled (Inr ()), st)
         else (Settled (Inl (Error ScriptExistsNoObject)), st))
      else (Pending, st\<lparr>scripts := scripts st @ [src], fetched := fetched st @ [src]\<rparr>))"

definition script_remove :: "string \<Rightarrow> page \<Rightarrow> page" where
  "script_remove src st = st\<lparr>scripts := remove1 src (scripts st)\<rparr>"

fun loadScript_event :: "string \<Rightarrow> net_event \<Rightarrow> page \<Rightarrow> outcome \<times> page" where
  "loadScript_event src (OnLoad defines) st =
     (let st1 = st\<lparr>apexCharts := apexCharts st \<or> defines\<rparr>
      in if apexCharts st1 then (Inr (), st1)
         else (Inl (Error NoObjectAfterLoad), script_remove src st1))"
| "loadScript_event src OnError st = (Inl (Error (ErrorLoading src)), script_remove src st)"
| "loadScript_event src OnTimeout st = (Inl (Error (TimeoutLoading src)), script_remove src st)"

text \<open>One caller awaiting the promise: the synchronous part, then the event the network
  delivers for this source.\<close>

definition loadScript :: "network \<Rightarrow> string \<Rightarrow> page \<Rightarrow> outcome \<times> page" where
  "loadScript net src st =
     (case loadScript_begin src st of
        (Settled r, st1) \<Rightarrow> (r, st1)
      | (Pending, st1) \<Rightarrow> loadScript_event src (net src) st1)"

subsection \<open>load of the CDN-only loader\<close>

text \<open>The \<^verbatim>\<open>for\<close> loop over \<open>cdnSources\<close>; falling out of the loop throws \<open>NoCdnSource\<close>.
  The test \<^verbatim>\<open>i < sources.length - 1\<close> is "more sources follow".\<close>

fun load_sources :: "chart_config \<Rightarrow> network \<Rightarrow> string list \<Rightarrow> page \<Rightarrow> outcome \<times> page" where
  "load_sources cfg net [] st = (Inl (Error NoCdnSource), st)"
| "load_sources cfg net (source # rest) st =
     (case loadScript net source (emit_if (debug cfg) (LogTrying source) st) of
        (Inr u, st1) \<Rightarrow> (Inr (), emit_if (debug cfg) (LogLoaded source) st1)
      | (Inl e, st1) \<Rightarrow>
          load_sources cfg net rest
            (emit_if (rest \<noteq> []) LogNextSource (emit (WarnFailed source e) st1)))"

definition load :: "chart_config \<Rightarrow> network \<Rightarrow> page \<Rightarrow> outcome \<times> page" where
  "load cfg net st =
     (if apexCharts st then (Inr (), emit_if (debug cfg) LogAlreadyLoaded st)
      else load_sources cfg net (cdnSources cfg) st)"

subsection \<open>The older loader\<close>

text \<open>Its loadScript neither looks for an existing element nor removes the element it
  appended.\<close>

fun loadScript_v1_event :: "string \<Rightarrow> net_event \<Rightarrow> page \<Rightarrow> outcome \<times> page" where
  "loadScript_v1_event src (OnLoad defines) st =
     (let st1 = st\<lparr>apexCharts := apexCharts st \<or> defines\<rparr>
      in if apexCharts st1 then (Inr (), st1) else (Inl (Error NoObjectAfterLoad), st1))"
| "loadScript_v1_event src OnError st = (Inl (Error (ErrorLoading src)), st)"
| "loadScript_v1_event src OnTimeout st = (Inl (Error (TimeoutLoading src)), st)"

definition loadScript_v1 :: "network \<Rightarrow> string \<Rightarrow> page \<Rightarrow> outcome \<times> page" where
  "loadScript_v1 net src st =
     loadScript_v1_event src (net src)
       (st\<lparr>scripts := scripts st @ [src], fetched := fetched st @ [src]\<rparr>)"

definition loadLocal :: "chart_config \<Rightarrow> network \<Rightarrow> page \<Rightarrow> outcome \<times> page" where
  "loadLocal cfg net st = loadScript_v1 net (localPath cfg) st"

fun loadCDN_sources :: "network \<Rightarrow> string list \<Rightarrow> page \<Rightarrow> outcome \<times> page" where
  "loadCDN_sources net [] st = (Inl (Error NoCdnSource), st)"
| "loadCDN_sources net (source # rest) st =
     (case loadScript_v1 net source st of
        (Inr u, st1) \<Rightarrow> (Inr (), st1)
      | (Inl e, st1) \<Rightarrow> loadCDN_sources net rest (emit (WarnFailed source e) st1))"

definition loadCDN :: "chart_config \<Rightarrow> network \<Rightarrow> page \<Rightarrow> outcome \<times> page" where
  "loadCDN cfg net st = loadCDN_sources net (cdnSources cfg) st"

definition loadAuto :: "chart_config \<Rightarrow> network \<Rightarrow> page \<Rightarrow> outcome \<times> page" where
  "loadAuto cfg net st =
     (case loadLocal cfg net st of
        (Inr u, st1) \<Rightarrow> (Inr (), emit_if (debug cfg) LogLoadedLocally st1)
      | (Inl e, st1) \<Rightarrow>
          (case loadCDN cfg net (emit WarnLocalUnavailable st1) of
             (Inr u, st2) \<Rightarrow> (Inr (), emit_if (debug cfg) LogLoadedFromCdn st2)
           | (Inl e2, st2) \<Rightarrow> (Inl e2, st2)))"

definition load_v1 :: "chart_config \<Rightarrow> network \<Rightarrow> page \<Rightarrow> outcome \<times> page" where
  "load_v1 cfg net st =
     (if apexCharts st then (Inr (), emit_if (debug cfg) LogAlreadyLoaded st)
      else if loadStrategy cfg = ''local'' then loadLocal cfg net st
      else if loadStrategy cfg = ''cdn'' then loadCDN cfg net st
      else loadAuto cfg net st)"

subsection \<open>Several callers of load\<close>

text \<open>
  The page is single-threaded: a caller of \<^verbatim>\<open>load\<close> runs until it awaits a pending
  promise, and runs again when the handler of its script element settles that promise.
  \<open>Awaiting s rest\<close> is a caller suspended at \<^verbatim>\<open>await this.loadScript(s)\<close> with the
  sources \<open>rest\<close> still to try; \<open>Finished r\<close> is a caller whose \<^verbatim>\<open>load\<close> has settled.
  \<open>resume_sources\<close> runs the loop from a given source on until the next suspension;
  a promise that is settled at once does not let any network event in between.
\<close>

datatype caller = Awaiting string "string list" | Finished outcome

fun resume_sources :: "chart_config \<Rightarrow> string list \<Rightarrow> page \<Rightarrow> caller \<times> page" where
  "resume_sources cfg [] st = (Finished (Inl (Error NoCdnSource)), st)"
| "resume_sources cfg (source # rest) st =
     (case loadScript_begin source (emit_if (debug cfg) (LogTrying source) st) of
        (Settled (Inr u), st1) \<Rightarrow> (Finished (Inr ()), emit_if (debug cfg) (LogLoaded source) st1)
      | (Settled (Inl e), st1) \<Rightarrow>
          resume_sources cfg rest
            (emit_if (rest \<noteq> []) LogNextSource (emit (WarnFailed source e) st1))
      | (Pending, st1) \<Rightarrow> (Awaiting source rest, st1))"

definition load_call :: "chart_config \<Rightarrow> page \<Rightarrow> caller \<times> page" where
  "load_call cfg st =
     (if apexCharts st then (Finished (Inr ()), emit_if (debug cfg) LogAlreadyLoaded st)
      else resume_sources cfg (cdnSources cfg) st)"

text \<open>The handler of the script element a caller waits for runs with event \<open>ev\<close>.\<close>

fun deliver :: "chart_config \<Rightarrow> net_event \<Rightarrow> caller \<Rightarrow> page \<Rightarrow> caller \<times> page" where
  "deliver cfg ev (Awaiting source rest) st =
     (case loadScript_event source ev st of
        (Inr u, st1) \<Rightarrow> (Finished (Inr ()), emit_if (debug cfg) (LogLoaded source) st1)
      | (Inl e, st1) \<Rightarrow>
          resume_sources cfg rest
            (emit_if (rest \<noteq> []) LogNextSource (emit (WarnFailed source e) st1)))"
| "deliver cfg ev (Finished r) st = (Finished r, st)"

subsection \<open>Reading the loader's diagnostics\<close>

text \<open>The warnings on the console, as pairs of source and error.\<close>

fun warnings :: "console_entry list \<Rightarrow> (string \<times> js_error) list" where
  "warnings [] = []"
| "warnings (WarnFailed s e # es) = (s, e) # warnings es"
| "warnings (e # es) = warnings es"

text \<open>The error with which loadScript rejects for a source that does not bring the
  library, given the sources \<open>present\<close> as script elements when it is called.\<close>

definition rejection :: "network \<Rightarrow> string list \<Rightarrow> string \<Rightarrow> js_error" where
  "rejection net present s =
     (if s \<in> set present then Error ScriptExistsNoObject
      else case net s of
             OnLoad d \<Rightarrow> Error NoObjectAfterLoad
           | OnError \<Rightarrow> Error (ErrorLoading s)
           | OnTimeout \<Rightarrow> Error (TimeoutLoading s))"

definition rejection_v1 :: "network \<Rightarrow> string \<Rightarrow> js_error" where
  "rejection_v1 net s =
     (case net s of
        OnLoad d \<Rightarrow> Error NoObjectAfterLoad
      | OnError \<Rightarrow> Error (ErrorLoading s)
      | OnTimeout \<Rightarrow> Error (TimeoutLoading s))"

section \<open>The forecast card: merging the buckets of a metric\<close>

text \<open>
  An attribute bucket is a JavaScript object from timestamp strings to readings; it is
  given by its \<^verbatim>\<open>Object.entries\<close>, in property order. An attribute that is absent (or
  falsy) is \<open>None\<close>, and \<^verbatim>\<open>attrs.k || {}\<close> reads it as the empty object. Readings are
  numbers, taken as reals.

  \<^verbatim>\<open>new Date(text).getTime()\<close> is a function of the browser; it is the parameter
  \<open>parse\<close> of the merge functions, with \<open>None\<close> for an invalid date (\<^verbatim>\<open>NaN\<close>). Every
  \<^verbatim>\<open>new Date()\<close> of one merge reads the clock within the same synchronous run; the
  functions take that reading as the one parameter \<open>now\<close>.
\<close>

type_synonym bucket = "(string \<times> real) list"

type_synonym instant = "int option"

text \<open>A chart point \<^verbatim>\<open>{x: ..., y: ...}\<close> is the pair of its \<open>x\<close> and its \<open>y\<close>.\<close>

type_synonym point = "instant \<times> real"

record card_attrs =
  battery_yesterday_actual :: "bucket option"
  battery_today_actual :: "bucket option"
  battery_today_predicted :: "bucket option"
  battery_tomorrow_predicted :: "bucket option"
  solar_yesterday_actual :: "bucket option"
  solar_today_actual :: "bucket option"
  solar_today_predicted :: "bucket option"
  solar_tomorrow_predicted :: "bucket option"
  consumption_yesterday_actual :: "bucket option"
  consumption_today_actual :: "bucket option"
  consumption_today_predicted :: "bucket option"
  consumption_tomorrow_predicted :: "bucket option"

definition or_empty :: "bucket option \<Rightarrow> bucket" where
  "or_empty b = (case b of None \<Rightarrow> [] | Some es \<Rightarrow> es)"

text \<open>Setting a property keeps the place of a key the object already has and puts a new
  key last; \<^verbatim>\<open>{...a, ...b}\<close> sets the properties of \<open>a\<close> and then those of \<open>b\<close> on an
  empty object. (Keys that are array indices would be listed first; timestamps are not.)\<close>

fun set_property :: "string \<Rightarrow> real \<Rightarrow> bucket \<Rightarrow> bucket" where
  "set_property k v [] = [(k, v)]"
| "set_property k v ((k', v') # es) =
     (if k' = k then (k, v) # es else (k', v') # set_property k v es)"

definition spread :: "bucket \<Rightarrow> bucket \<Rightarrow> bucket" where
  "spread a b = fold (\<lambda>(k, v). set_property k v) (a @ b) []"

text \<open>\<^verbatim>\<open>time >= new Date()\<close>: false for an invalid date.\<close>

definition not_before :: "int \<Rightarrow> instant \<Rightarrow> bool" where
  "not_before now t = (case t of None \<Rightarrow> False | Some ms \<Rightarrow> now \<le> ms)"

text \<open>
  \<^verbatim>\<open>data.sort((a, b) => a.x - b.x)\<close>. The comparator yields \<^verbatim>\<open>NaN\<close> when one of the
  instants is invalid, which the sort reads as 0. The sort is stable (ECMAScript 2019);
  it is written here as the insertion sort that puts each element, from the last to the
  first, before the first element it does not compare greater than. For valid instants
  the comparator is a consistent order and every stable sort gives this result; with an
  invalid instant the order is left to the engine, and this is one possible order.
\<close>

definition compareFn :: "point \<Rightarrow> point \<Rightarrow> int" where
  "compareFn a b = (case (fst a, fst b) of (Some i, Some j) \<Rightarrow> i - j | _ \<Rightarrow> 0)"

fun sort_insert :: "point \<Rightarrow> point list \<Rightarrow> point list" where
  "sort_insert a [] = [a]"
| "sort_insert a (b # bs) = (if compareFn a b \<le> 0 then a # b # bs else b # sort_insert a bs)"

definition array_sort :: "point list \<Rightarrow> point list" where
  "array_sort xs = foldr sort_insert xs []"

definition to_points :: "(string \<Rightarrow> instant) \<Rightarrow> bucket \<Rightarrow> point list" where
  "to_points parse es = map (\<lambda>(ts, v). (parse ts, v)) es"

definition future_points :: "(string \<Rightarrow> instant) \<Rightarrow> int \<Rightarrow> bucket \<Rightarrow> point list" where
  "future_points parse now es =
     to_points parse (filter (\<lambda>(ts, v). not_before now (parse ts)) es)"

subsection \<open>combineBatteryData\<close>

definition battery_actual :: "(string \<Rightarrow> instant) \<Rightarrow> card_attrs \<Rightarrow> point list" where
  "battery_actual parse attrs =
     to_points parse (or_empty (battery_yesterday_actual attrs))
     @ to_points parse (or_empty (battery_today_actual attrs))"

definition battery_predicted :: "(string \<Rightarrow> instant) \<Rightarrow> int \<Rightarrow> card_attrs \<Rightarrow> point list" where
  "battery_predicted parse now attrs =
     future_points parse now (or_empty (battery_today_predicted attrs))
     @ to_points parse (or_empty (battery_tomorrow_predicted attrs))"

definition combineBatteryData :: "(string \<Rightarrow> instant) \<Rightarrow> int \<Rightarrow> card_attrs \<Rightarrow> point list" where
  "combineBatteryData parse now attrs =
     array_sort (battery_actual parse attrs @ battery_predicted parse now attrs)"

subsection \<open>combineSolarData\<close>

definition solar_actual :: "(string \<Rightarrow> instant) \<Rightarrow> card_attrs \<Rightarrow> point list" where
  "solar_actual parse attrs =
     to_points parse
       (spread (or_empty (solar_yesterday_actual attrs)) (or_empty (solar_today_actual attrs)))"

definition solar_predicted :: "(string \<Rightarrow> instant) \<Rightarrow> int \<Rightarrow> card_attrs \<Rightarrow> point list" where
  "solar_predicted parse now attrs =
     future_points parse now
       (spread (or_empty (solar_today_predicted attrs))
               (or_empty (solar_tomorrow_predicted attrs)))"

definition combineSolarData :: "(string \<Rightarrow> instant) \<Rightarrow> int \<Rightarrow> card_attrs \<Rightarrow> point list" where
  "combineSolarData parse now attrs =
     array_sort (solar_actual parse attrs @ solar_predicted parse now attrs)"

subsection \<open>combineConsumptionData\<close>

definition magnitude :: "point \<Rightarrow> point" where
  "magnitude p = (fst p, \<bar>snd p\<bar>)"

definition consumption_actual :: "(string \<Rightarrow> instant) \<Rightarrow> card_attrs \<Rightarrow> point list" where
  "consumption_actual parse attrs =
     map magnitude
       (to_points parse
          (spread (or_empty (consumption_yesterday_actual attrs))
                  (or_empty (consumption_today_actual attrs))))"

definition consumption_predicted :: "(string \<Rightarrow> instant) \<Rightarrow> int \<Rightarrow> card_attrs \<Rightarrow> point list" where
  "consumption_predicted parse now attrs =
     map magnitude
       (future_points parse now
          (spread (or_empty (consumption_today_predicted attrs))
                  (or_empty (consumption_tomorrow_predicted attrs))))"

definition combineConsumptionData :: "(string \<Rightarrow> instant) \<Rightarrow> int \<Rightarrow> card_attrs \<Rightarrow> point list" where
  "combineConsumptionData parse now attrs =
     array_sort (consumption_actual parse attrs @ consumption_predicted parse now attrs)"

subsection \<open>Reading a merged series\<close>

text \<open>Every instant is a valid date.\<close>

definition valid_instants :: "point list \<Rightarrow> bool" where
  "valid_instants ps = list_all (\<lambda>p. fst p \<noteq> None) ps"

text \<open>Ascending by instant.\<close>

definition ascending :: "point list \<Rightarrow> bool" where
  "ascending ps =
     sorted_wrt (\<lambda>a b. case (fst a, fst b) of (Some i, Some j) \<Rightarrow> i \<le> j | _ \<Rightarrow> False) ps"

text \<open>The points of a series at one instant, in the order of the series.\<close>

definition at_instant :: "int \<Rightarrow> point list \<Rightarrow> point list" where
  "at_instant t ps = filter (\<lambda>p. fst p = Some t) ps"

section \<open>The dashboard (OigCloudDashboard)\<close>

subsection \<open>JavaScript values of sensor attributes\<close>

text \<open>
  Sensor attributes arrive as JSON; an attribute that is missing reads as
  \<^verbatim>\<open>undefined\<close>. A number is the real it denotes (JSON has neither \<^verbatim>\<open>NaN\<close> nor
  infinities, and the two zeros are one number here; both are falsy). Doubling a number
  is exact in binary floating point short of overflow, and \<^verbatim>\<open>toFixed\<close> is specified on
  the real a number denotes.
\<close>

datatype jsval = JUndefined | JNull | JBool bool | JNum real | JStr string

fun truthy :: "jsval \<Rightarrow> bool" where
  "truthy JUndefined = False"
| "truthy JNull = False"
| "truthy (JBool b) = b"
| "truthy (JNum r) = (r \<noteq> 0)"
| "truthy (JStr s) = (s \<noteq> [])"

text \<open>\<^verbatim>\<open>a || b\<close>\<close>

definition js_or :: "jsval \<Rightarrow> jsval \<Rightarrow> jsval" where
  "js_or a b = (if truthy a then a else b)"

subsection \<open>Number.prototype.toFixed(1)\<close>

definition digit :: "nat \<Rightarrow> char" where
  "digit d = ''0123456789'' ! d"

fun decimal :: "nat \<Rightarrow> string" where
  "decimal n = (if n < 10 then [digit n] else decimal (n div 10) @ [digit (n mod 10)])"

declare decimal.simps [simp del]

text \<open>The integer \<open>n\<close> for which \<open>n / 10\<close> is nearest to \<open>a\<close>, the larger one of two.\<close>

definition tenths :: "real \<Rightarrow> nat" where
  "tenths a = nat \<lfloor>a * 10 + 1 / 2\<rfloor>"

text \<open>
  \<^verbatim>\<open>x.toFixed(1)\<close> for a number \<open>x\<close>: the sign, the digits of the integer part, a
  point and one digit. From \<open>10 ^ 21\<close> on the result is \<^verbatim>\<open>String(x)\<close> instead, whose digits
  depend on the floating-point representation; that conversion is the parameter
  \<open>to_string\<close>.
\<close>

definition toFixed1 :: "(real \<Rightarrow> string) \<Rightarrow> real \<Rightarrow> string" where
  "toFixed1 to_string x =
     (if 10 ^ 21 \<le> \<bar>x\<bar> then to_string x
      else (if x < 0 then ''-'' else [])
           @ decimal (tenths \<bar>x\<bar> div 10) @ ''.'' @ [digit (tenths \<bar>x\<bar> mod 10)])"

subsection \<open>renderBatteryChart\<close>

record timeline_point =
  timestamp :: string
  solar_production_w :: jsval
  battery_capacity_kwh :: jsval
  spot_price_czk :: jsval
  is_charging :: jsval

record forecast_attrs =
  timeline_data :: "timeline_point list option"
  max_capacity_kwh :: jsval
  current_battery_kwh :: jsval

record sensor_data =
  attributes :: "forecast_attrs option"

text \<open>A point annotation: \<open>ann_x\<close> and \<open>ann_y\<close> are its \<^verbatim>\<open>x\<close> and \<^verbatim>\<open>y\<close>, \<open>ann_text\<close> is
  \<^verbatim>\<open>label.text\<close>.\<close>

record annotation =
  ann_x :: instant
  ann_y :: real
  ann_text :: string

text \<open>The options object handed to ApexCharts: the data of the three series, the
  colours that depend on the theme, the two y axes, the point annotations, and the value
  shown in the title.\<close>

record battery_options =
  series_solar :: "(instant \<times> jsval) list"
  series_battery :: "(instant \<times> jsval) list"
  series_charging :: "(instant \<times> jsval) list"
  background :: string
  foreColor :: string
  borderColor :: string
  yaxis_left_min :: real
  yaxis_left_max :: jsval
  yaxis_right_min :: real
  yaxis_right_max :: real
  annotation_points :: "annotation list"
  title_kwh :: jsval

text \<open>
  The arrow function that maps \<^verbatim>\<open>spotPrices\<close> to annotations. \<^verbatim>\<open>price.toFixed(1)\<close> exists
  for a number only: for \<^verbatim>\<open>undefined\<close> reading the property throws, and a string or a
  boolean has no such method, so calling it throws. The exception leaves
  \<^verbatim>\<open>renderBatteryChart\<close> before any chart is made.
\<close>

fun price_annotations ::
  "(real \<Rightarrow> string) \<Rightarrow> (instant \<times> jsval) list \<Rightarrow> js_error + annotation list" where
  "price_annotations to_string [] = Inr []"
| "price_annotations to_string ((ts, JNum price) # rest) =
     (case price_annotations to_string rest of
        Inl e \<Rightarrow> Inl e
      | Inr anns \<Rightarrow>
          Inr (\<lparr>ann_x = ts, ann_y = price * 2, ann_text = toFixed1 to_string price\<rparr> # anns))"
| "price_annotations to_string ((ts, v) # rest) = Inl TypeError"

text \<open>What a call of \<^verbatim>\<open>renderBatteryChart\<close> leaves on the page: nothing (the early
  \<^verbatim>\<open>return\<close>), the "no data" placeholder, or a chart rendered from options.\<close>

datatype rendering = Nothing | NoDataPlaceholder | Chart battery_options

definition renderBatteryChart ::
  "(string \<Rightarrow> instant) \<Rightarrow> (real \<Rightarrow> string) \<Rightarrow> bool \<Rightarrow> sensor_data option
     \<Rightarrow> js_error + rendering" where
  "renderBatteryChart parse to_string isDark sensorData =
     (case sensorData of
        None \<Rightarrow> Inr Nothing
      | Some sd \<Rightarrow>
     (case attributes sd of
        None \<Rightarrow> Inr Nothing
      | Some attrs \<Rightarrow>
     (let timelineData = (case timeline_data attrs of None \<Rightarrow> [] | Some points \<Rightarrow> points) in
      if timelineData = [] then Inr NoDataPlaceholder
      else
        let solarData = map (\<lambda>p. (parse (timestamp p), solar_production_w p)) timelineData;
            batteryData = map (\<lambda>p. (parse (timestamp p), battery_capacity_kwh p)) timelineData;
            spotPrices = map (\<lambda>p. (parse (timestamp p), spot_price_czk p))
                           (filter (\<lambda>p. spot_price_czk p \<noteq> JNull) timelineData);
            chargingPeriods = map (\<lambda>p. (parse (timestamp p), battery_capacity_kwh p))
                                (filter (\<lambda>p. truthy (is_charging p)) timelineData)
        in case price_annotations to_string spotPrices of
             Inl e \<Rightarrow> Inl e
           | Inr anns \<Rightarrow>
               Inr (Chart
                 \<lparr>series_solar = solarData,
                  series_battery = batteryData,
                  series_charging = chargingPeriods,
                  background = (if isDark then ''#1e1e1e'' else ''#ffffff''),
                  foreColor = (if isDark then ''#e1e1e1'' else ''#212121''),
                  borderColor = (if isDark then ''#444'' else ''#e0e0e0''),
                  yaxis_left_min = 0,
                  yaxis_left_max = js_or (max_capacity_kwh attrs) (JNum 15),
                  yaxis_right_min = 0,
                  yaxis_right_max = 3000,
                  annotation_points = anns,
                  title_kwh = js_or (current_battery_kwh attrs) (JNum 0)\<rparr>))))"

subsection \<open>init\<close>

text \<open>
  \<open>entryId\<close> and \<open>inverterSn\<close> are what \<^verbatim>\<open>URLSearchParams.get\<close> returned in the
  constructor: \<open>None\<close> (\<^verbatim>\<open>null\<close>) when the query has no such parameter, else its text,
  which may be empty. \<open>updateInterval\<close> is the period in milliseconds of the interval
  timer, \<open>None\<close> while none is set. \<open>charts\<close> are the chart instances the dashboard holds.
\<close>

record 'c dashboard =
  entryId :: "string option"
  inverterSn :: "string option"
  charts :: 'c
  updateInterval :: "nat option"

text \<open>\<^verbatim>\<open>!s\<close> for a value that is \<^verbatim>\<open>null\<close> or a string\<close>

definition missing :: "string option \<Rightarrow> bool" where
  "missing s = (case s of None \<Rightarrow> True | Some t \<Rightarrow> t = [])"

text \<open>
  How the promise of \<^verbatim>\<open>init\<close> ends, and the dashboard then: rejected, never settled
  (the awaited cycle never settles), or fulfilled.

  \<^verbatim>\<open>loadAndRenderCharts\<close> fetches the sensors from Home Assistant and renders the charts;
  its whole body is inside \<^verbatim>\<open>try\<close>/\<^verbatim>\<open>catch\<close>, so it does not reject. It is the parameter
  \<open>cycle\<close>: the dashboard after one cycle, or \<open>None\<close> when a fetch it awaits never
  settles.
\<close>

datatype 'c init_result =
    InitRejected js_error "'c dashboard"
  | InitNeverSettles
  | InitFulfilled "'c dashboard"

definition init :: "('c dashboard \<Rightarrow> 'c dashboard option) \<Rightarrow> 'c dashboard \<Rightarrow> 'c init_result" where
  "init cycle d =
     (if missing (entryId d) \<or> missing (inverterSn d)
      then InitRejected (Error MissingParameters) d
      else case cycle d of
             None \<Rightarrow> InitNeverSettles
           | Some d1 \<Rightarrow> InitFulfilled (d1\<lparr>updateInterval := Some 120000\<rparr>))"

section \<open>Concrete pages, configurations and networks\<close>

text \<open>A configuration with the two sources a and b, a page on which nothing is loaded yet,
  networks on which every fetch times out or ends in an error event, and the pages of a
  run of two callers.\<close>

definition cfg_ab :: chart_config where
  "cfg_ab = \<lparr>cdnSources = [''a'', ''b''], loadTimeout = 15000, debug = False,
             loadStrategy = ''auto'', localPath = ''/local''\<rparr>"

definition page0 :: page where
  "page0 = \<lparr>apexCharts = False, scripts = [], fetched = [], console = []\<rparr>"

definition page_loaded :: page where
  "page_loaded = \<lparr>apexCharts = True, scripts = [''a''], fetched = [''a''], console = []\<rparr>"

definition net_timeout :: network where
  "net_timeout s = OnTimeout"

definition net_error :: network where
  "net_error s = OnError"

definition page_a_in_flight :: page where
  "page_a_in_flight = \<lparr>apexCharts = False, scripts = [''a''], fetched = [''a''], console = []\<rparr>"

definition page_b_in_flight :: page where
  "page_b_in_flight =
     \<lparr>apexCharts = False, scripts = [''a'', ''b''], fetched = [''a'', ''b''],
      console = [WarnFailed ''a'' (Error ScriptExistsNoObject), LogNextSource]\<rparr>"

definition page_b_failed :: page where
  "page_b_failed =
     \<lparr>apexCharts = False, scripts = [''a''], fetched = [''a'', ''b''],
      console = [WarnFailed ''a'' (Error ScriptExistsNoObject), LogNextSource,
                 WarnFailed ''b'' (Error (ErrorLoading ''b''))]\<rparr>"

definition page_a_loaded :: page where
  "page_a_loaded =
     \<lparr>apexCharts = True, scripts = [''a''], fetched = [''a'', ''b''],
      console = [WarnFailed ''a'' (Error ScriptExistsNoObject), LogNextSource,
                 WarnFailed ''b'' (Error (ErrorLoading ''b''))]\<rparr>"

section \<open>Concrete buckets\<close>

text \<open>A parser for the two timestamps of the examples, in milliseconds since the epoch, and
  the attributes of the examples.\<close>

definition parse_utc :: "string \<Rightarrow> instant" where
  "parse_utc s =
     (if s = ''2024-01-01T08:00:00Z'' then Some 1704096000000
      else if s = ''2024-01-01T10:00:00Z'' then Some 1704103200000
      else None)"

text \<open>09:00 and 08:00 of that day.\<close>

definition nine_utc :: int where
  "nine_utc = 1704099600000"

definition eight_utc :: int where
  "eight_utc = 1704096000000"

definition no_buckets :: card_attrs where
  "no_buckets =
     \<lparr>battery_yesterday_actual = None, battery_today_actual = None,
      battery_today_predicted = None, battery_tomorrow_predicted = None,
      solar_yesterday_actual = None, solar_today_actual = None,
      solar_today_predicted = None, solar_tomorrow_predicted = None,
      consumption_yesterday_actual = None, consumption_today_actual = None,
      consumption_today_predicted = None, consumption_tomorrow_predicted = None\<rparr>"

text \<open>A state that was computed the day before: its tomorrow-predicted buckets hold an
  entry for 08:00 of what is now today.\<close>

definition attrs_stale :: card_attrs where
  "attrs_stale =
     no_buckets
     \<lparr>battery_tomorrow_predicted := Some [(''2024-01-01T08:00:00Z'', 11 / 2)],
      solar_tomorrow_predicted := Some [(''2024-01-01T08:00:00Z'', 11 / 2)],
      consumption_tomorrow_predicted := Some [(''2024-01-01T08:00:00Z'', 11 / 2)]\<rparr>"

text \<open>Actual and predicted readings for the same instant, 08:00.\<close>

definition attrs_tie :: card_attrs where
  "attrs_tie =
     no_buckets
     \<lparr>battery_today_actual := Some [(''2024-01-01T08:00:00Z'', 5)],
      battery_today_predicted :=
        Some [(''2024-01-01T10:00:00Z'', 6), (''2024-01-01T08:00:00Z'', 11 / 2)],
      solar_today_actual := Some [(''2024-01-01T08:00:00Z'', 5)],
      solar_today_predicted :=
        Some [(''2024-01-01T10:00:00Z'', 6), (''2024-01-01T08:00:00Z'', 11 / 2)],
      consumption_today_actual := Some [(''2024-01-01T08:00:00Z'', - 350)],
      consumption_today_predicted :=
        Some [(''2024-01-01T10:00:00Z'', 6), (''2024-01-01T08:00:00Z'', - 340)]\<rparr>"

text \<open>A bucket of actual readings in which one key is not a date.\<close>

definition attrs_unparsed :: card_attrs where
  "attrs_unparsed =
     no_buckets
     \<lparr>battery_today_actual :=
        Some [(''2024-01-01T10:00:00Z'', 6), (''garbage'', 1), (''2024-01-01T08:00:00Z'', 5)]\<rparr>"

section \<open>Concrete sensor data and dashboards\<close>

text \<open>A timeline of two points, the first with a spot price of 3.5 and the second without
  a price, in attributes without a maximum capacity and with the maximum capacity 0; the
  options renderBatteryChart builds from either on the light theme.\<close>

definition to_string_large :: "real \<Rightarrow> string" where
  "to_string_large x = ''1e+21''"

definition timeline_demo :: "timeline_point list" where
  "timeline_demo =
     [\<lparr>timestamp = ''2024-01-01T08:00:00Z'', solar_production_w = JNum 1200,
       battery_capacity_kwh = JNum 5, spot_price_czk = JNum (7 / 2), is_charging = JBool True\<rparr>,
      \<lparr>timestamp = ''2024-01-01T10:00:00Z'', solar_production_w = JNum 900,
       battery_capacity_kwh = JNum 6, spot_price_czk = JNull, is_charging = JBool False\<rparr>]"

definition forecast_demo :: forecast_attrs where
  "forecast_demo =
     \<lparr>timeline_data = Some timeline_demo, max_capacity_kwh = JUndefined,
      current_battery_kwh = JNum 5\<rparr>"

definition forecast_zero :: forecast_attrs where
  "forecast_zero =
     \<lparr>timeline_data = Some timeline_demo, max_capacity_kwh = JNum 0,
      current_battery_kwh = JNum 5\<rparr>"

definition options_demo :: battery_options where
  "options_demo =
     \<lparr>series_solar = [(Some 1704096000000, JNum 1200), (Some 1704103200000, JNum 900)],
      series_battery = [(Some 1704096000000, JNum 5), (Some 1704103200000, JNum 6)],
      series_charging = [(Some 1704096000000, JNum 5)],
      background = ''#ffffff'', foreColor = ''#212121'', borderColor = ''#e0e0e0'',
      yaxis_left_min = 0, yaxis_left_max = JNum 15,
      yaxis_right_min = 0, yaxis_right_max = 3000,
      annotation_points = [\<lparr>ann_x = Some 1704096000000, ann_y = 7, ann_text = ''3.5''\<rparr>],
      title_kwh = JNum 5\<rparr>"

text \<open>Dashboards whose \<open>charts\<close> is the flag "the charts have been rendered", with a
  cycle that settles and sets it.\<close>

definition cycle_renders :: "bool dashboard \<Rightarrow> bool dashboard option" where
  "cycle_renders d = Some (d\<lparr>charts := True\<rparr>)"

definition dashboard_no_entry :: "bool dashboard" where
  "dashboard_no_entry =
     \<lparr>entryId = None, inverterSn = Some ''2206237016'', charts = False, updateInterval = None\<rparr>"

definition dashboard_empty_entry :: "bool dashboard" where
  "dashboard_empty_entry =
     \<lparr>entryId = Some [], inverterSn = Some ''2206237016'', charts = False,
      updateInterval = None\<rparr>"

definition dashboard_both :: "bool dashboard" where
  "dashboard_both =
     \<lparr>entryId = Some ''abc'', inverterSn = Some ''2206237016'', charts = False,
      updateInterval = None\<rparr>"

section \<open>Properties of the loader\<close>

lemma emit_if_keeps [simp]:
  "apexCharts (emit_if b e st) = apexCharts st"
  "scripts (emit_if b e st) = scripts st"
  "fetched (emit_if b e st) = fetched st"
  by (simp_all add: emit_if_def emit_def)

lemma emit_keeps [simp]:
  "apexCharts (emit e st) = apexCharts st"
  "scripts (emit e st) = scripts st"
  "fetched (emit e st) = fetched st"
  "console (emit e st) = console st @ [e]"
  by (simp_all add: emit_def)

text \<open>
  Claim C4. The load operation is idempotent: when the global charting library is already
  present, load succeeds at once, no script element is created and no source is
  attempted. This holds for both loaders; the only thing that may change is one debug
  line on the console when \<open>debug\<close> is on.
\<close>

theorem load_idempotent_when_present:
  assumes "apexCharts st"
  shows "fst (load cfg net st) = Inr ()
       \<and> scripts (snd (load cfg net st)) = scripts st
       \<and> fetched (snd (load cfg net st)) = fetched st
       \<and> apexCharts (snd (load cfg net st))
       \<and> (\<not> debug cfg \<longrightarrow> snd (load cfg net st) = st)
       \<and> fst (load_v1 cfg net st) = Inr ()
       \<and> scripts (snd (load_v1 cfg net st)) = scripts st
       \<and> fetched (snd (load_v1 cfg net st)) = fetched st
       \<and> (\<not> debug cfg \<longrightarrow> snd (load_v1 cfg net st) = st)"
  using assms by (simp add: load_def load_v1_def emit_if_def)

theorem load_idempotent_when_present_witness:
  "apexCharts page_loaded \<and> \<not> debug cfg_ab
   \<and> load cfg_ab net_error page_loaded = (Inr (), page_loaded)
   \<and> load_v1 cfg_ab net_error page_loaded = (Inr (), page_loaded)"
proof -
  have h: "apexCharts page_loaded" by (simp add: page_loaded_def)
  have d: "\<not> debug cfg_ab" by (simp add: cfg_ab_def)
  from load_idempotent_when_present [OF h, of cfg_ab net_error] d h show ?thesis
    by (simp add: prod_eq_iff)
qed

text \<open>
  Claim C9. When a script element for the source is already in the document and the
  global charting library is not present, loadScript for that source rejects at once with
  the error \<open>ScriptExistsNoObject\<close>: the promise is settled in the synchronous part (it is
  not left pending on the script that is in flight), whatever the network does later,
  and the page is left as it was.
\<close>

theorem loadScript_rejects_when_script_exists:
  assumes "src \<in> set (scripts st)" and "\<not> apexCharts st"
  shows "loadScript_begin src st = (Settled (Inl (Error ScriptExistsNoObject)), st)
       \<and> loadScript net src st = (Inl (Error ScriptExistsNoObject), st)"
  using assms by (simp add: loadScript_def loadScript_begin_def)

theorem loadScript_rejects_when_script_exists_witness:
  "''a'' \<in> set (scripts page_a_in_flight) \<and> \<not> apexCharts page_a_in_flight
   \<and> loadScript_begin ''a'' page_a_in_flight
       = (Settled (Inl (Error ScriptExistsNoObject)), page_a_in_flight)
   \<and> loadScript net_error ''a'' page_a_in_flight
       = (Inl (Error ScriptExistsNoObject), page_a_in_flight)"
proof -
  have h1: "''a'' \<in> set (scripts page_a_in_flight)" by (simp add: page_a_in_flight_def)
  have h2: "\<not> apexCharts page_a_in_flight" by (simp add: page_a_in_flight_def)
  from loadScript_rejects_when_script_exists [OF h1 h2, of net_error] h1 h2
  show ?thesis by simp
qed

subsection \<open>All sources fail\<close>

lemma warnings_append: "warnings (xs @ ys) = warnings xs @ warnings ys"
  by (induction xs rule: warnings.induct) simp_all

lemma loadScript_fails:
  assumes "\<not> apexCharts st" "s \<in> set (scripts st) \<or> net s \<noteq> OnLoad True"
  shows "loadScript net s st =
           (Inl (rejection net (scripts st) s),
            st\<lparr>fetched := fetched st @ (if s \<in> set (scripts st) then [] else [s])\<rparr>)"
proof (cases "s \<in> set (scripts st)")
  case True
  with assms show ?thesis
    by (simp add: loadScript_def loadScript_begin_def rejection_def)
next
  case False
  with assms have n: "net s \<noteq> OnLoad True" by simp
  show ?thesis
  proof (cases "net s")
    case (OnLoad d)
    with n have "d = False" by simp
    with OnLoad False assms(1) show ?thesis
      by (simp add: loadScript_def loadScript_begin_def rejection_def script_remove_def
          remove1_append)
  next
    case OnError
    with False show ?thesis
      by (simp add: loadScript_def loadScript_begin_def rejection_def script_remove_def
          remove1_append)
  next
    case OnTimeout
    with False show ?thesis
      by (simp add: loadScript_def loadScript_begin_def rejection_def script_remove_def
          remove1_append)
  qed
qed

lemma load_sources_all_fail:
  assumes "\<not> apexCharts st"
    and "\<forall>s\<in>set srcs. s \<in> set (scripts st) \<or> net s \<noteq> OnLoad True"
  shows "fst (load_sources cfg net srcs st) = Inl (Error NoCdnSource)
       \<and> warnings (console (snd (load_sources cfg net srcs st)))
           = warnings (console st) @ map (\<lambda>s. (s, rejection net (scripts st) s)) srcs
       \<and> scripts (snd (load_sources cfg net srcs st)) = scripts st
       \<and> \<not> apexCharts (snd (load_sources cfg net srcs st))"
  using assms
proof (induction srcs arbitrary: st)
  case Nil
  then show ?case by simp
next
  case (Cons s srcs)
  let ?st0 = "emit_if (debug cfg) (LogTrying s) st"
  let ?st1 = "?st0\<lparr>fetched := fetched ?st0 @ (if s \<in> set (scripts ?st0) then [] else [s])\<rparr>"
  let ?st2 = "emit_if (srcs \<noteq> []) LogNextSource (emit (WarnFailed s (rejection net (scripts st) s)) ?st1)"
  have ls: "loadScript net s ?st0 = (Inl (rejection net (scripts st) s), ?st1)"
    using loadScript_fails [of ?st0 s net] Cons.prems by simp
  have step: "load_sources cfg net (s # srcs) st = load_sources cfg net srcs ?st2"
    by (simp add: ls)
  have a: "\<not> apexCharts ?st2" using Cons.prems by simp
  have sc: "scripts ?st2 = scripts st" by simp
  have w: "warnings (console ?st2) = warnings (console st) @ [(s, rejection net (scripts st) s)]"
    by (simp add: warnings_append emit_if_def emit_def)
  have b: "\<forall>x\<in>set srcs. x \<in> set (scripts ?st2) \<or> net x \<noteq> OnLoad True"
    using Cons.prems sc by simp
  from Cons.IH [OF a b] show ?case
    unfolding step sc w by simp
qed

lemma loadScript_v1_fails:
  assumes "\<not> apexCharts st" "net s \<noteq> OnLoad True"
  shows "loadScript_v1 net s st =
           (Inl (rejection_v1 net s),
            st\<lparr>scripts := scripts st @ [s], fetched := fetched st @ [s]\<rparr>)"
proof (cases "net s")
  case (OnLoad d)
  with assms(2) have "d = False" by simp
  with OnLoad assms(1) show ?thesis
    by (simp add: loadScript_v1_def rejection_v1_def)
next
  case OnError
  then show ?thesis by (simp add: loadScript_v1_def rejection_v1_def)
next
  case OnTimeout
  then show ?thesis by (simp add: loadScript_v1_def rejection_v1_def)
qed

lemma loadCDN_sources_all_fail:
  assumes "\<not> apexCharts st" and "\<forall>s\<in>set srcs. net s \<noteq> OnLoad True"
  shows "fst (loadCDN_sources net srcs st) = Inl (Error NoCdnSource)
       \<and> warnings (console (snd (loadCDN_sources net srcs st)))
           = warnings (console st) @ map (\<lambda>s. (s, rejection_v1 net s)) srcs"
  using assms
proof (induction srcs arbitrary: st)
  case Nil
  then show ?case by simp
next
  case (Cons s srcs)
  let ?st1 = "st\<lparr>scripts := scripts st @ [s], fetched := fetched st @ [s]\<rparr>"
  let ?st2 = "emit (WarnFailed s (rejection_v1 net s)) ?st1"
  have ls: "loadScript_v1 net s st = (Inl (rejection_v1 net s), ?st1)"
    using loadScript_v1_fails [of st net s] Cons.prems by simp
  have step: "loadCDN_sources net (s # srcs) st = loadCDN_sources net srcs ?st2"
    by (simp add: ls)
  have a: "\<not> apexCharts ?st2" using Cons.prems by simp
  have w: "warnings (console ?st2) = warnings (console st) @ [(s, rejection_v1 net s)]"
    by (simp add: warnings_append)
  have b: "\<forall>x\<in>set srcs. net x \<noteq> OnLoad True"
    using Cons.prems by simp
  from Cons.IH [OF a b] show ?case
    unfolding step w by simp
qed

text \<open>
  Claim C2, as amended. When the library is absent and every source fails, load fails
  with the one error \<open>NoCdnSource\<close>, which names no source and holds no reason. The
  reasons are written to the console only: one warning for each source attempted, in
  source order, each with the error loadScript rejected with for that source. The same
  holds for loadCDN of the older loader.
\<close>

theorem load_all_sources_fail:
  assumes "\<not> apexCharts st"
    and "\<forall>s\<in>set (cdnSources cfg). s \<in> set (scripts st) \<or> net s \<noteq> OnLoad True"
  shows "fst (load cfg net st) = Inl (Error NoCdnSource)
       \<and> warnings (console (snd (load cfg net st)))
           = warnings (console st)
             @ map (\<lambda>s. (s, rejection net (scripts st) s)) (cdnSources cfg)
       \<and> ((\<forall>s\<in>set (cdnSources cfg). net s \<noteq> OnLoad True) \<longrightarrow>
            fst (loadCDN cfg net st) = Inl (Error NoCdnSource)
          \<and> warnings (console (snd (loadCDN cfg net st)))
              = warnings (console st) @ map (\<lambda>s. (s, rejection_v1 net s)) (cdnSources cfg))"
  using load_sources_all_fail [OF assms, of cfg]
    loadCDN_sources_all_fail [OF assms(1), of "cdnSources cfg" net] assms(1)
  by (simp add: load_def loadCDN_def)

theorem load_all_sources_fail_witness:
  "\<not> apexCharts page0
   \<and> cdnSources cfg_ab = [''a'', ''b'']
   \<and> net_timeout ''a'' \<noteq> OnLoad True \<and> net_timeout ''b'' \<noteq> OnLoad True
   \<and> fst (load cfg_ab net_timeout page0) = Inl (Error NoCdnSource)
   \<and> warnings (console (snd (load cfg_ab net_timeout page0)))
       = [(''a'', Error (TimeoutLoading ''a'')), (''b'', Error (TimeoutLoading ''b''))]
   \<and> fst (loadCDN cfg_ab net_timeout page0) = Inl (Error NoCdnSource)
   \<and> warnings (console (snd (loadCDN cfg_ab net_timeout page0)))
       = [(''a'', Error (TimeoutLoading ''a'')), (''b'', Error (TimeoutLoading ''b''))]"
proof -
  have h1: "\<not> apexCharts page0" by (simp add: page0_def)
  have h2: "\<forall>s\<in>set (cdnSources cfg_ab). s \<in> set (scripts page0) \<or> net_timeout s \<noteq> OnLoad True"
    by (simp add: net_timeout_def)
  have h3: "\<forall>s\<in>set (cdnSources cfg_ab). net_timeout s \<noteq> OnLoad True"
    by (simp add: net_timeout_def)
  have c: "console page0 = []" "scripts page0 = []" "cdnSources cfg_ab = [''a'', ''b'']"
    by (simp_all add: page0_def cfg_ab_def)
  have r: "rejection net_timeout [] s = Error (TimeoutLoading s)"
    "rejection_v1 net_timeout s = Error (TimeoutLoading s)" for s
    by (simp_all add: rejection_def rejection_v1_def net_timeout_def)
  have n: "net_timeout ''a'' \<noteq> OnLoad True" "net_timeout ''b'' \<noteq> OnLoad True"
    by (simp_all add: net_timeout_def)
  from load_all_sources_fail [OF h1 h2] h1 h3 n show ?thesis
    by (simp add: c r)
qed

text \<open>
  Claim C2, as stated, fails. With the two sources of \<open>cfg_ab\<close>, a network on which every
  fetch times out and a network on which every fetch ends in an error event make load
  fail with the very same error value, although the reasons of the two runs differ: the
  failure result does not carry them.
\<close>

theorem load_failure_carries_no_reasons:
  "fst (load cfg_ab net_timeout page0) = Inl (Error NoCdnSource)
   \<and> fst (load cfg_ab net_error page0) = Inl (Error NoCdnSource)
   \<and> warnings (console (snd (load cfg_ab net_timeout page0)))
       = [(''a'', Error (TimeoutLoading ''a'')), (''b'', Error (TimeoutLoading ''b''))]
   \<and> warnings (console (snd (load cfg_ab net_error page0)))
       = [(''a'', Error (ErrorLoading ''a'')), (''b'', Error (ErrorLoading ''b''))]"
  by (simp add: load_def cfg_ab_def page0_def net_timeout_def net_error_def loadScript_def
      loadScript_begin_def script_remove_def emit_if_def emit_def)

subsection \<open>Two callers of load\<close>

lemma resume_sources_effect:
  "resume_sources cfg srcs st = (c, st') \<Longrightarrow>
     apexCharts st' = apexCharts st \<and>
     (case c of
        Awaiting s r \<Rightarrow>
          s \<notin> set (scripts st) \<and> scripts st' = scripts st @ [s] \<and> fetched st' = fetched st @ [s]
      | Finished r \<Rightarrow> scripts st' = scripts st \<and> fetched st' = fetched st)"
proof (induction srcs arbitrary: st)
  case Nil
  then show ?case by auto
next
  case (Cons s srcs)
  let ?st0 = "emit_if (debug cfg) (LogTrying s) st"
  show ?case
  proof (cases "s \<in> set (scripts st)")
    case False
    then have "loadScript_begin s ?st0
        = (Pending, ?st0\<lparr>scripts := scripts ?st0 @ [s], fetched := fetched ?st0 @ [s]\<rparr>)"
      by (simp add: loadScript_begin_def)
    with Cons.prems False show ?thesis by auto
  next
    case True
    show ?thesis
    proof (cases "apexCharts st")
      case True
      with \<open>s \<in> set (scripts st)\<close> have "loadScript_begin s ?st0 = (Settled (Inr ()), ?st0)"
        by (simp add: loadScript_begin_def)
      with Cons.prems show ?thesis by auto
    next
      case False
      let ?st2 = "emit_if (srcs \<noteq> []) LogNextSource
                    (emit (WarnFailed s (Error ScriptExistsNoObject)) ?st0)"
      from False \<open>s \<in> set (scripts st)\<close>
      have "loadScript_begin s ?st0 = (Settled (Inl (Error ScriptExistsNoObject)), ?st0)"
        by (simp add: loadScript_begin_def)
      with Cons.prems have "resume_sources cfg srcs ?st2 = (c, st')" by simp
      from Cons.IH [OF this] show ?thesis by (simp split: caller.splits)
    qed
  qed
qed

lemma load_call_effect:
  assumes "load_call cfg st = (c, st')"
  shows "apexCharts st' = apexCharts st \<and>
     (case c of
        Awaiting s r \<Rightarrow>
          s \<notin> set (scripts st) \<and> scripts st' = scripts st @ [s] \<and> fetched st' = fetched st @ [s]
      | Finished r \<Rightarrow> scripts st' = scripts st \<and> fetched st' = fetched st)"
proof (cases "apexCharts st")
  case True
  with assms show ?thesis by (auto simp: load_call_def)
next
  case False
  with assms have "resume_sources cfg (cdnSources cfg) st = (c, st')"
    by (simp add: load_call_def)
  from resume_sources_effect [OF this] show ?thesis .
qed

lemma load_call_awaiting_absent:
  assumes "load_call cfg st = (Awaiting s rest, st')"
  shows "\<not> apexCharts st"
  using assms by (auto simp: load_call_def split: if_splits)

text \<open>
  Claim C5, as amended. Let a first caller of load be suspended on the fetch of source
  \<open>s\<close>, and let load be called a second time before any network event. The second call
  starts no second fetch of \<open>s\<close>, and the document keeps at most one script element
  for each source. It does not wait for the attempt in flight either: its loadScript for
  \<open>s\<close> rejects at once, and the caller is never left waiting on \<open>s\<close>; it goes on to
  the sources after \<open>s\<close>.
\<close>

theorem second_caller_does_not_wait:
  assumes "load_call cfg st = (Awaiting s rest, st1)"
    and "load_call cfg st1 = (c2, st2)"
  shows "loadScript_begin s st1 = (Settled (Inl (Error ScriptExistsNoObject)), st1)
       \<and> (\<forall>r. c2 \<noteq> Awaiting s r)
       \<and> count_list (fetched st2) s = count_list (fetched st1) s
       \<and> (distinct (scripts st) \<longrightarrow> distinct (scripts st2))"
proof -
  from load_call_effect [OF assms(1)] have
    a1: "apexCharts st1 = apexCharts st" and n1: "s \<notin> set (scripts st)"
    and s1: "scripts st1 = scripts st @ [s]"
    by simp_all
  from load_call_awaiting_absent [OF assms(1)] a1 have na: "\<not> apexCharts st1" by simp
  from s1 have in1: "s \<in> set (scripts st1)" by simp
  from in1 na have b: "loadScript_begin s st1 = (Settled (Inl (Error ScriptExistsNoObject)), st1)"
    by (simp add: loadScript_begin_def)
  note e2 = load_call_effect [OF assms(2)]
  have w: "\<forall>r. c2 \<noteq> Awaiting s r"
  proof
    fix r show "c2 \<noteq> Awaiting s r"
    proof
      assume "c2 = Awaiting s r"
      with e2 have "s \<notin> set (scripts st1)" by simp
      with in1 show False by simp
    qed
  qed
  have f: "count_list (fetched st2) s = count_list (fetched st1) s"
  proof (cases c2)
    case (Awaiting s' r')
    with e2 have "s' \<notin> set (scripts st1)" and "fetched st2 = fetched st1 @ [s']" by simp_all
    with in1 show ?thesis by auto
  next
    case (Finished r)
    with e2 show ?thesis by simp
  qed
  have d: "distinct (scripts st) \<longrightarrow> distinct (scripts st2)"
  proof
    assume ds: "distinct (scripts st)"
    with n1 s1 have d1: "distinct (scripts st1)" by simp
    show "distinct (scripts st2)"
    proof (cases c2)
      case (Awaiting s' r')
      with e2 have "s' \<notin> set (scripts st1)" and "scripts st2 = scripts st1 @ [s']" by simp_all
      with d1 show ?thesis by simp
    next
      case (Finished r)
      with e2 d1 show ?thesis by simp
    qed
  qed
  from b w f d show ?thesis by simp
qed

lemma first_call_ab: "load_call cfg_ab page0 = (Awaiting ''a'' [''b''], page_a_in_flight)"
  by (simp add: load_call_def cfg_ab_def page0_def page_a_in_flight_def loadScript_begin_def
      emit_if_def)

lemma second_call_ab: "load_call cfg_ab page_a_in_flight = (Awaiting ''b'' [], page_b_in_flight)"
  by (simp add: load_call_def cfg_ab_def page_a_in_flight_def page_b_in_flight_def
      loadScript_begin_def emit_if_def emit_def)

theorem second_caller_does_not_wait_witness:
  "load_call cfg_ab page0 = (Awaiting ''a'' [''b''], page_a_in_flight)
   \<and> load_call cfg_ab page_a_in_flight = (Awaiting ''b'' [], page_b_in_flight)
   \<and> distinct (scripts page0)
   \<and> loadScript_begin ''a'' page_a_in_flight
       = (Settled (Inl (Error ScriptExistsNoObject)), page_a_in_flight)
   \<and> count_list (fetched page_b_in_flight) ''a'' = count_list (fetched page_a_in_flight) ''a''
   \<and> distinct (scripts page_b_in_flight)"
proof -
  have d: "distinct (scripts page0)" by (simp add: page0_def)
  from second_caller_does_not_wait [OF first_call_ab second_call_ab] d first_call_ab second_call_ab
  show ?thesis by simp
qed

text \<open>
  Claim C5, as stated, fails. With the sources a and b: the first caller is suspended on
  a; the second caller, called while a is in flight, is rejected for a at once and starts
  the fetch of b; the fetch of b ends in an error event and the second caller fails with
  \<open>NoCdnSource\<close>; then a loads and the first caller succeeds. The second caller did not
  observe the outcome of the attempt that was in flight.
\<close>

theorem concurrent_callers_observe_different_outcomes:
  "load_call cfg_ab page0 = (Awaiting ''a'' [''b''], page_a_in_flight)
   \<and> load_call cfg_ab page_a_in_flight = (Awaiting ''b'' [], page_b_in_flight)
   \<and> deliver cfg_ab OnError (Awaiting ''b'' []) page_b_in_flight
       = (Finished (Inl (Error NoCdnSource)), page_b_failed)
   \<and> deliver cfg_ab (OnLoad True) (Awaiting ''a'' [''b'']) page_b_failed
       = (Finished (Inr ()), page_a_loaded)"
  by (simp add: load_call_def cfg_ab_def page0_def page_a_in_flight_def page_b_in_flight_def
      page_b_failed_def page_a_loaded_def loadScript_begin_def script_remove_def
      emit_if_def emit_def)

text \<open>A caller that runs alone, with the events the network delivers, is the sequential
  \<open>load_sources\<close>.\<close>

lemma load_sources_finished:
  "resume_sources cfg srcs st = (Finished r, st1) \<Longrightarrow> load_sources cfg net srcs st = (r, st1)"
proof (induction srcs arbitrary: st)
  case Nil
  then show ?case by simp
next
  case (Cons s srcs)
  then show ?case
    by (auto simp: loadScript_def split: prod.splits begun.splits sum.splits)
qed

lemma load_sources_awaiting:
  "resume_sources cfg srcs st = (Awaiting s rest, st1) \<Longrightarrow>
   load_sources cfg net srcs st =
     (case loadScript_event s (net s) st1 of
        (Inr u, st2) \<Rightarrow> (Inr (), emit_if (debug cfg) (LogLoaded s) st2)
      | (Inl e, st2) \<Rightarrow>
          load_sources cfg net rest
            (emit_if (rest \<noteq> []) LogNextSource (emit (WarnFailed s e) st2)))"
proof (induction srcs arbitrary: st)
  case Nil
  then show ?case by simp
next
  case (Cons s' srcs)
  then show ?case
    by (auto simp: loadScript_def split: prod.splits begun.splits sum.splits)
qed

section \<open>Properties of the merged series\<close>

lemma set_sort_insert: "set (sort_insert a xs) = insert a (set xs)"
  by (induction xs) auto

lemma set_array_sort: "set (array_sort xs) = set xs"
  by (induction xs) (simp_all add: array_sort_def set_sort_insert)

lemma array_sort_Cons: "array_sort (a # xs) = sort_insert a (array_sort xs)"
  by (simp add: array_sort_def)

lemma valid_instants_array_sort: "valid_instants (array_sort xs) = valid_instants xs"
  by (simp add: valid_instants_def list_all_iff set_array_sort)

lemma ascending_sort_insert:
  assumes "fst a \<noteq> None" and "valid_instants xs" and "ascending xs"
  shows "ascending (sort_insert a xs)"
  using assms
proof (induction xs)
  case Nil
  then show ?case by (simp add: ascending_def)
next
  case (Cons b bs)
  from Cons.prems obtain i j where i: "fst a = Some i" and j: "fst b = Some j"
    by (auto simp: valid_instants_def)
  from Cons.prems have vbs: "valid_instants bs" and abs: "ascending bs"
    by (simp_all add: valid_instants_def ascending_def)
  show ?case
  proof (cases "i \<le> j")
    case True
    have "\<forall>p\<in>set bs. case (fst a, fst p) of (Some i, Some k) \<Rightarrow> i \<le> k | _ \<Rightarrow> False"
    proof
      fix p assume p: "p \<in> set bs"
      with vbs obtain k where k: "fst p = Some k" by (auto simp: valid_instants_def list_all_iff)
      from Cons.prems(3) p j k have "j \<le> k" by (auto simp: ascending_def)
      with True i k show "case (fst a, fst p) of (Some i, Some k) \<Rightarrow> i \<le> k | _ \<Rightarrow> False"
        by simp
    qed
    with True i j Cons.prems(3) show ?thesis
      by (simp add: compareFn_def ascending_def)
  next
    case False
    from Cons.IH [OF Cons.prems(1) vbs abs] have "ascending (sort_insert a bs)" .
    with False i j Cons.prems(3) show ?thesis
      by (simp add: compareFn_def ascending_def set_sort_insert)
  qed
qed

lemma ascending_array_sort: "valid_instants xs \<Longrightarrow> ascending (array_sort xs)"
proof (induction xs)
  case Nil
  then show ?case by (simp add: array_sort_def ascending_def)
next
  case (Cons a xs)
  then have "fst a \<noteq> None" and v: "valid_instants xs" by (simp_all add: valid_instants_def)
  with Cons.IH show ?case
    by (simp add: array_sort_Cons ascending_sort_insert valid_instants_array_sort)
qed

text \<open>For valid instants \<open>array_sort\<close> is the stable sort of the list library on the
  instants.\<close>

lemma sort_insert_insort_key:
  assumes "fst a \<noteq> None" and "valid_instants xs"
  shows "sort_insert a xs = insort_key (\<lambda>p. the (fst p)) a xs"
  using assms
  by (induction xs) (auto simp: compareFn_def valid_instants_def)

lemma array_sort_sort_key:
  assumes "valid_instants xs"
  shows "array_sort xs = sort_key (\<lambda>p. the (fst p)) xs"
  using assms
proof (induction xs)
  case Nil
  then show ?case by (simp add: array_sort_def)
next
  case (Cons a xs)
  then have a: "fst a \<noteq> None" and v: "valid_instants xs"
    by (simp_all add: valid_instants_def)
  from v have "valid_instants (array_sort xs)" by (simp add: valid_instants_array_sort)
  with a have "sort_insert a (array_sort xs) = insort_key (\<lambda>p. the (fst p)) a (array_sort xs)"
    by (rule sort_insert_insort_key)
  with Cons.IH [OF v] show ?case by (simp add: array_sort_Cons)
qed

lemma at_instant_append: "at_instant t (xs @ ys) = at_instant t xs @ at_instant t ys"
  by (simp add: at_instant_def)

lemma at_instant_sort_insert:
  "at_instant t (sort_insert a xs) = at_instant t [a] @ at_instant t xs"
proof (induction xs)
  case Nil
  then show ?case by (simp add: at_instant_def)
next
  case (Cons b bs)
  show ?case
  proof (cases "compareFn a b \<le> 0")
    case True
    then show ?thesis by (simp add: at_instant_def)
  next
    case False
    then have "fst a \<noteq> fst b"
      by (auto simp: compareFn_def split: option.splits)
    with False Cons.IH show ?thesis
      by (auto simp: at_instant_def)
  qed
qed

lemma at_instant_array_sort: "at_instant t (array_sort xs) = at_instant t xs"
proof (induction xs)
  case Nil
  then show ?case by (simp add: array_sort_def)
next
  case (Cons a xs)
  have "at_instant t (array_sort (a # xs)) = at_instant t [a] @ at_instant t (array_sort xs)"
    by (simp only: array_sort_Cons at_instant_sort_insert)
  also have "\<dots> = at_instant t [a] @ at_instant t xs"
    by (simp only: Cons.IH)
  also have "\<dots> = at_instant t (a # xs)"
    by (simp add: at_instant_def)
  finally show ?case .
qed

lemma merged_sorted_stable:
  assumes "valid_instants (actual @ predicted)"
  shows "ascending (array_sort (actual @ predicted))
       \<and> (\<forall>t. at_instant t (array_sort (actual @ predicted))
                = at_instant t actual @ at_instant t predicted)"
  using assms by (simp add: ascending_array_sort at_instant_array_sort at_instant_append)

text \<open>
  Claim C3, as amended. For each of the three metrics, when every key of the points
  that are merged parses as a valid date, the merged series is ascending by instant, and
  the points of the series at any one instant are the actual points at that instant, in
  their order, followed by the predicted points at that instant: an actual point
  precedes every predicted point with the same timestamp.
\<close>

theorem merged_series_sorted_actual_first:
  "(valid_instants (battery_actual parse attrs @ battery_predicted parse now attrs) \<longrightarrow>
      ascending (combineBatteryData parse now attrs)
    \<and> (\<forall>t. at_instant t (combineBatteryData parse now attrs)
           = at_instant t (battery_actual parse attrs)
             @ at_instant t (battery_predicted parse now attrs)))
 \<and> (valid_instants (solar_actual parse attrs @ solar_predicted parse now attrs) \<longrightarrow>
      ascending (combineSolarData parse now attrs)
    \<and> (\<forall>t. at_instant t (combineSolarData parse now attrs)
           = at_instant t (solar_actual parse attrs)
             @ at_instant t (solar_predicted parse now attrs)))
 \<and> (valid_instants (consumption_actual parse attrs @ consumption_predicted parse now attrs) \<longrightarrow>
      ascending (combineConsumptionData parse now attrs)
    \<and> (\<forall>t. at_instant t (combineConsumptionData parse now attrs)
           = at_instant t (consumption_actual parse attrs)
             @ at_instant t (consumption_predicted parse now attrs)))"
  unfolding combineBatteryData_def combineSolarData_def combineConsumptionData_def
  using merged_sorted_stable by blast

lemma tie_battery:
  "battery_actual parse_utc attrs_tie = [(Some 1704096000000, 5)]"
  "battery_predicted parse_utc eight_utc attrs_tie
     = [(Some 1704103200000, 6), (Some 1704096000000, 11 / 2)]"
  by (simp_all add: battery_actual_def battery_predicted_def attrs_tie_def no_buckets_def
      or_empty_def to_points_def future_points_def not_before_def parse_utc_def eight_utc_def)

lemma tie_solar:
  "solar_actual parse_utc attrs_tie = [(Some 1704096000000, 5)]"
  "solar_predicted parse_utc eight_utc attrs_tie
     = [(Some 1704103200000, 6), (Some 1704096000000, 11 / 2)]"
  by (simp_all add: solar_actual_def solar_predicted_def attrs_tie_def no_buckets_def
      or_empty_def to_points_def future_points_def not_before_def parse_utc_def eight_utc_def
      spread_def)

lemma tie_consumption:
  "consumption_actual parse_utc attrs_tie = [(Some 1704096000000, 350)]"
  "consumption_predicted parse_utc eight_utc attrs_tie
     = [(Some 1704103200000, 6), (Some 1704096000000, 340)]"
  by (simp_all add: consumption_actual_def consumption_predicted_def attrs_tie_def
      no_buckets_def or_empty_def to_points_def future_points_def not_before_def parse_utc_def
      eight_utc_def spread_def magnitude_def)

theorem merged_series_sorted_actual_first_witness:
  "valid_instants (battery_actual parse_utc attrs_tie
                   @ battery_predicted parse_utc eight_utc attrs_tie)
 \<and> valid_instants (solar_actual parse_utc attrs_tie
                   @ solar_predicted parse_utc eight_utc attrs_tie)
 \<and> valid_instants (consumption_actual parse_utc attrs_tie
                   @ consumption_predicted parse_utc eight_utc attrs_tie)
 \<and> ascending (combineBatteryData parse_utc eight_utc attrs_tie)
 \<and> at_instant 1704096000000 (combineBatteryData parse_utc eight_utc attrs_tie)
     = [(Some 1704096000000, 5), (Some 1704096000000, 11 / 2)]
 \<and> ascending (combineSolarData parse_utc eight_utc attrs_tie)
 \<and> at_instant 1704096000000 (combineSolarData parse_utc eight_utc attrs_tie)
     = [(Some 1704096000000, 5), (Some 1704096000000, 11 / 2)]
 \<and> ascending (combineConsumptionData parse_utc eight_utc attrs_tie)
 \<and> at_instant 1704096000000 (combineConsumptionData parse_utc eight_utc attrs_tie)
     = [(Some 1704096000000, 350), (Some 1704096000000, 340)]"
proof -
  have v: "valid_instants (battery_actual parse_utc attrs_tie
                           @ battery_predicted parse_utc eight_utc attrs_tie)"
    "valid_instants (solar_actual parse_utc attrs_tie
                     @ solar_predicted parse_utc eight_utc attrs_tie)"
    "valid_instants (consumption_actual parse_utc attrs_tie
                     @ consumption_predicted parse_utc eight_utc attrs_tie)"
    by (simp_all add: tie_battery tie_solar tie_consumption valid_instants_def)
  from merged_series_sorted_actual_first [of parse_utc attrs_tie eight_utc] v
  show ?thesis
    by (simp add: tie_battery tie_solar tie_consumption at_instant_def)
qed

text \<open>A series of two or more points with an invalid instant among them is not ascending,
  in whatever order the points stand.\<close>

lemma invalid_instant_not_ascending:
  assumes "p \<in> set ps" and "fst p = None" and "2 \<le> length ps"
  shows "\<not> ascending ps"
proof
  assume asc: "ascending ps"
  from assms(1) obtain i where i: "i < length ps" and pi: "ps ! i = p"
    by (auto simp: in_set_conv_nth)
  from assms(3) i obtain j where j: "j < length ps" and ij: "j \<noteq> i"
    by (cases "i = 0") (auto intro: that [of 1] that [of 0])
  show False
  proof (cases "i < j")
    case True
    with asc j have "case (fst (ps ! i), fst (ps ! j)) of
                       (Some a, Some b) \<Rightarrow> a \<le> b | _ \<Rightarrow> False"
      unfolding ascending_def sorted_wrt_iff_nth_less by blast
    with pi assms(2) show False by simp
  next
    case False
    with ij have "j < i" by simp
    with asc i have "case (fst (ps ! j), fst (ps ! i)) of
                       (Some a, Some b) \<Rightarrow> a \<le> b | _ \<Rightarrow> False"
      unfolding ascending_def sorted_wrt_iff_nth_less by blast
    with pi assms(2) show False by (simp split: option.splits)
  qed
qed

text \<open>
  Claim C3, as stated for every merge, fails. The merge functions parse the keys with
  \<^verbatim>\<open>new Date(timestamp).getTime()\<close> and validate none of them. With the actual readings
  of \<open>attrs_unparsed\<close>, whose second key is not a date, the comparator yields \<^verbatim>\<open>NaN\<close>
  against that point, the points stay in the order in which they were pushed, 10:00
  before 08:00, and the merged series is not ascending.
\<close>

theorem merged_series_unsorted_with_invalid_key:
  "combineBatteryData parse_utc nine_utc attrs_unparsed
     = [(Some 1704103200000, 6), (None, 1), (Some 1704096000000, 5)]
 \<and> \<not> ascending (combineBatteryData parse_utc nine_utc attrs_unparsed)"
proof -
  have r: "combineBatteryData parse_utc nine_utc attrs_unparsed
     = [(Some 1704103200000, 6), (None, 1), (Some 1704096000000, 5)]"
    by (simp add: combineBatteryData_def battery_actual_def battery_predicted_def
        attrs_unparsed_def no_buckets_def or_empty_def to_points_def future_points_def
        parse_utc_def array_sort_def compareFn_def)
  have "\<not> ascending [(Some 1704103200000, 6), (None, 1), (Some (1704096000000::int), 5::real)]"
    by (rule invalid_instant_not_ascending [of "(None, 1)"]) simp_all
  with r show ?thesis by simp
qed

text \<open>
  Claim C1 says that no predicted point before \<open>now\<close> is in a merged series, the
  tomorrow-predicted bucket included. combineBatteryData pushes the entries of
  \<^verbatim>\<open>battery_tomorrow_predicted\<close> without the test \<^verbatim>\<open>time >= new Date()\<close> that it applies
  to \<^verbatim>\<open>battery_today_predicted\<close>, and that combineSolarData and combineConsumptionData
  apply to both of their predicted buckets. With a tomorrow-predicted entry at 08:00 and
  \<open>now\<close> at 09:00 of the same day, the battery series holds the point; the solar and the
  consumption series, given the same entry, do not.
\<close>

theorem battery_keeps_past_tomorrow_prediction:
  "combineBatteryData parse_utc nine_utc attrs_stale = [(Some 1704096000000, 11 / 2)]
 \<and> 1704096000000 < nine_utc
 \<and> combineSolarData parse_utc nine_utc attrs_stale = []
 \<and> combineConsumptionData parse_utc nine_utc attrs_stale = []"
  by (simp add: combineBatteryData_def combineSolarData_def combineConsumptionData_def
      battery_actual_def battery_predicted_def solar_actual_def solar_predicted_def
      consumption_actual_def consumption_predicted_def attrs_stale_def no_buckets_def
      or_empty_def to_points_def future_points_def not_before_def parse_utc_def nine_utc_def
      spread_def array_sort_def)

text \<open>Where the test is applied, no point before \<open>now\<close> is left.\<close>

lemma future_points_not_before:
  "p \<in> set (future_points parse now es) \<Longrightarrow> not_before now (fst p)"
  by (auto simp: future_points_def to_points_def)

lemma solar_predicted_not_before:
  "p \<in> set (solar_predicted parse now attrs) \<Longrightarrow> not_before now (fst p)"
  by (simp add: solar_predicted_def future_points_not_before)

lemma consumption_predicted_not_before:
  "p \<in> set (consumption_predicted parse now attrs) \<Longrightarrow> not_before now (fst p)"
  by (auto simp: consumption_predicted_def magnitude_def dest: future_points_not_before)

lemma battery_today_predicted_not_before:
  "p \<in> set (future_points parse now (or_empty (battery_today_predicted attrs)))
     \<Longrightarrow> not_before now (fst p)"
  by (rule future_points_not_before)

section \<open>Properties of the dashboard\<close>

text \<open>What is known of the options whenever renderBatteryChart renders a chart.\<close>

lemma renderBatteryChart_Chart:
  assumes "renderBatteryChart parse to_string isDark (Some sd) = Inr (Chart opts)"
    and "attributes sd = Some attrs"
  obtains tline anns where
    "timeline_data attrs = Some tline" "tline \<noteq> []"
    "price_annotations to_string
       (map (\<lambda>p. (parse (timestamp p), spot_price_czk p))
            (filter (\<lambda>p. spot_price_czk p \<noteq> JNull) tline)) = Inr anns"
    "yaxis_left_min opts = 0"
    "yaxis_left_max opts = js_or (max_capacity_kwh attrs) (JNum 15)"
    "annotation_points opts = anns"
  using assms
  by (auto simp: renderBatteryChart_def Let_def split: option.splits if_splits sum.splits)

lemma render_demo:
  "renderBatteryChart parse_utc to_string_large False (Some \<lparr>attributes = Some forecast_demo\<rparr>)
     = Inr (Chart options_demo)"
  by (simp add: renderBatteryChart_def forecast_demo_def timeline_demo_def options_demo_def
      parse_utc_def toFixed1_def tenths_def decimal.simps digit_def js_or_def)

lemma render_zero:
  "renderBatteryChart parse_utc to_string_large False (Some \<lparr>attributes = Some forecast_zero\<rparr>)
     = Inr (Chart options_demo)"
  by (simp add: renderBatteryChart_def forecast_zero_def timeline_demo_def options_demo_def
      parse_utc_def toFixed1_def tenths_def decimal.simps digit_def js_or_def)

text \<open>
  Claim C6. Whenever renderBatteryChart builds the options of the battery chart from
  attributes that have no \<^verbatim>\<open>max_capacity_kwh\<close>, the left axis has the minimum 0 and the
  maximum 15.
\<close>

theorem battery_left_axis_default:
  assumes "renderBatteryChart parse to_string isDark (Some sd) = Inr (Chart opts)"
    and "attributes sd = Some attrs"
    and "max_capacity_kwh attrs = JUndefined"
  shows "yaxis_left_min opts = 0 \<and> yaxis_left_max opts = JNum 15"
proof -
  from assms(1,2) have "yaxis_left_min opts = 0"
    and "yaxis_left_max opts = js_or (max_capacity_kwh attrs) (JNum 15)"
    by (auto elim: renderBatteryChart_Chart)
  with assms(3) show ?thesis by (simp add: js_or_def)
qed

theorem battery_left_axis_default_witness:
  "renderBatteryChart parse_utc to_string_large False (Some \<lparr>attributes = Some forecast_demo\<rparr>)
     = Inr (Chart options_demo)
   \<and> max_capacity_kwh forecast_demo = JUndefined
   \<and> yaxis_left_min options_demo = 0 \<and> yaxis_left_max options_demo = JNum 15"
proof -
  have a: "attributes \<lparr>attributes = Some forecast_demo\<rparr> = Some forecast_demo" by simp
  have m: "max_capacity_kwh forecast_demo = JUndefined" by (simp add: forecast_demo_def)
  from battery_left_axis_default [OF render_demo a m] render_demo m show ?thesis by simp
qed

text \<open>
  Claim C10. Whenever renderBatteryChart builds the options of the battery chart, every
  falsy \<^verbatim>\<open>max_capacity_kwh\<close> (missing, \<^verbatim>\<open>null\<close>, \<^verbatim>\<open>false\<close>, the empty string, and
  also the number 0) gives the left axis the maximum 15; so the maximum of the left axis
  is never 0, and is always truthy.
\<close>

theorem battery_left_axis_never_zero:
  assumes "renderBatteryChart parse to_string isDark (Some sd) = Inr (Chart opts)"
    and "attributes sd = Some attrs"
  shows "(\<not> truthy (max_capacity_kwh attrs) \<longrightarrow> yaxis_left_max opts = JNum 15)
       \<and> yaxis_left_max opts \<noteq> JNum 0
       \<and> truthy (yaxis_left_max opts)"
proof -
  from assms have m: "yaxis_left_max opts = js_or (max_capacity_kwh attrs) (JNum 15)"
    by (auto elim: renderBatteryChart_Chart)
  show ?thesis
  proof (cases "truthy (max_capacity_kwh attrs)")
    case True
    with m have "yaxis_left_max opts = max_capacity_kwh attrs" by (simp add: js_or_def)
    with True show ?thesis by auto
  next
    case False
    with m show ?thesis by (simp add: js_or_def)
  qed
qed

theorem battery_left_axis_never_zero_witness:
  "renderBatteryChart parse_utc to_string_large False (Some \<lparr>attributes = Some forecast_zero\<rparr>)
     = Inr (Chart options_demo)
   \<and> max_capacity_kwh forecast_zero = JNum 0
   \<and> \<not> truthy (max_capacity_kwh forecast_zero)
   \<and> yaxis_left_max options_demo = JNum 15
   \<and> yaxis_left_max options_demo \<noteq> JNum 0"
proof -
  have a: "attributes \<lparr>attributes = Some forecast_zero\<rparr> = Some forecast_zero" by simp
  have m: "max_capacity_kwh forecast_zero = JNum 0" by (simp add: forecast_zero_def)
  from battery_left_axis_never_zero [OF render_zero a] render_zero m show ?thesis by simp
qed

subsection \<open>The price annotations\<close>

text \<open>The number of tenths that toFixed(1) prints is within half a tenth of the number.\<close>

lemma tenths_nearest:
  assumes "0 \<le> a"
  shows "\<bar>real (tenths a) / 10 - a\<bar> \<le> 1 / 20"
proof -
  let ?f = "\<lfloor>a * 10 + 1 / 2\<rfloor>"
  from assms have "0 \<le> ?f" by simp
  then have n: "real (tenths a) = of_int ?f" by (simp add: tenths_def)
  have lo: "of_int ?f \<le> a * 10 + 1 / 2" and hi: "a * 10 + 1 / 2 < of_int ?f + 1"
    by linarith+
  have "real (tenths a) / 10 - a \<le> 1 / 20" using n lo by linarith
  moreover have "- (1 / 20) \<le> real (tenths a) / 10 - a" using n hi by linarith
  ultimately show ?thesis by linarith
qed

lemma price_annotations_Inr:
  "price_annotations to_string sp = Inr anns \<Longrightarrow>
   list_all2 (\<lambda>q a. \<exists>price. snd q = JNum price \<and> ann_x a = fst q \<and> ann_y a = price * 2
                \<and> ann_text a = toFixed1 to_string price) sp anns"
proof (induction to_string sp arbitrary: anns rule: price_annotations.induct)
  case (1 to_string)
  then show ?case by simp
next
  case (2 to_string ts price rest)
  then show ?case by (auto split: sum.splits)
qed simp_all

lemma toFixed1_small:
  assumes "\<bar>x\<bar> < 10 ^ 21"
  shows "toFixed1 to_string x =
           (if x < 0 then ''-'' else []) @ decimal (tenths \<bar>x\<bar> div 10) @ ''.''
           @ [digit (tenths \<bar>x\<bar> mod 10)]"
  using assms by (simp add: toFixed1_def)

text \<open>
  Claim C7. Whenever renderBatteryChart builds the options of the battery chart, the
  point annotations are, in order, those of the timeline points whose spot price is not
  \<^verbatim>\<open>null\<close>. For each of them the price is a number, the annotation stands at the
  instant of the point, its vertical position is the price times 2, and its label is
  toFixed(1) of the price itself, not of the scaled value: for a price below \<open>10 ^ 21\<close>
  in magnitude, the sign, then the number of tenths nearest to the price, printed with
  one digit after the point.
\<close>

theorem price_annotation_scaled_label_unscaled:
  assumes "renderBatteryChart parse to_string isDark (Some sd) = Inr (Chart opts)"
    and "attributes sd = Some attrs"
    and "timeline_data attrs = Some tline"
  shows "list_all2
           (\<lambda>p a. \<exists>price. spot_price_czk p = JNum price
                \<and> ann_x a = parse (timestamp p)
                \<and> ann_y a = price * 2
                \<and> ann_text a = toFixed1 to_string price
                \<and> (\<bar>price\<bar> < 10 ^ 21 \<longrightarrow>
                     ann_text a = (if price < 0 then ''-'' else [])
                                  @ decimal (tenths \<bar>price\<bar> div 10) @ ''.''
                                  @ [digit (tenths \<bar>price\<bar> mod 10)]
                   \<and> \<bar>real (tenths \<bar>price\<bar>) / 10 - \<bar>price\<bar>\<bar> \<le> 1 / 20))
           (filter (\<lambda>p. spot_price_czk p \<noteq> JNull) tline)
           (annotation_points opts)"
proof -
  let ?sp = "map (\<lambda>p. (parse (timestamp p), spot_price_czk p))
               (filter (\<lambda>p. spot_price_czk p \<noteq> JNull) tline)"
  from assms have "price_annotations to_string ?sp = Inr (annotation_points opts)"
    by (auto elim: renderBatteryChart_Chart)
  from price_annotations_Inr [OF this]
  have "list_all2 (\<lambda>p a. \<exists>price. spot_price_czk p = JNum price
                \<and> ann_x a = parse (timestamp p) \<and> ann_y a = price * 2
                \<and> ann_text a = toFixed1 to_string price)
          (filter (\<lambda>p. spot_price_czk p \<noteq> JNull) tline) (annotation_points opts)"
    by (simp add: list_all2_map1)
  then show ?thesis
  proof (rule list_all2_mono)
    fix p a
    assume "\<exists>price. spot_price_czk p = JNum price
                \<and> ann_x a = parse (timestamp p) \<and> ann_y a = price * 2
                \<and> ann_text a = toFixed1 to_string price"
    then obtain price where pr: "spot_price_czk p = JNum price"
      "ann_x a = parse (timestamp p)" "ann_y a = price * 2"
      "ann_text a = toFixed1 to_string price" by blast
    have "\<bar>real (tenths \<bar>price\<bar>) / 10 - \<bar>price\<bar>\<bar> \<le> 1 / 20"
      by (rule tenths_nearest) simp
    with pr toFixed1_small [of price to_string]
    show "\<exists>price. spot_price_czk p = JNum price
                \<and> ann_x a = parse (timestamp p)
                \<and> ann_y a = price * 2
                \<and> ann_text a = toFixed1 to_string price
                \<and> (\<bar>price\<bar> < 10 ^ 21 \<longrightarrow>
                     ann_text a = (if price < 0 then ''-'' else [])
                                  @ decimal (tenths \<bar>price\<bar> div 10) @ ''.''
                                  @ [digit (tenths \<bar>price\<bar> mod 10)]
                   \<and> \<bar>real (tenths \<bar>price\<bar>) / 10 - \<bar>price\<bar>\<bar> \<le> 1 / 20)"
      by auto
  qed
qed

theorem price_annotation_scaled_label_unscaled_witness:
  "renderBatteryChart parse_utc to_string_large False (Some \<lparr>attributes = Some forecast_demo\<rparr>)
     = Inr (Chart options_demo)
   \<and> timeline_data forecast_demo = Some timeline_demo
   \<and> map spot_price_czk (filter (\<lambda>p. spot_price_czk p \<noteq> JNull) timeline_demo) = [JNum (7 / 2)]
   \<and> (\<bar>7 / 2 :: real\<bar> < 10 ^ 21)
   \<and> map ann_y (annotation_points options_demo) = [7 / 2 * 2]
   \<and> map ann_text (annotation_points options_demo) = [''3.5'']"
proof -
  have a: "attributes \<lparr>attributes = Some forecast_demo\<rparr> = Some forecast_demo" by simp
  have t: "timeline_data forecast_demo = Some timeline_demo" by (simp add: forecast_demo_def)
  from price_annotation_scaled_label_unscaled [OF render_demo a t] render_demo t
  show ?thesis
    by (simp add: timeline_demo_def options_demo_def)
qed

subsection \<open>init\<close>

text \<open>
  Claim C8, as amended. init rejects with the error \<open>MissingParameters\<close> when
  \<^verbatim>\<open>entry_id\<close> or \<^verbatim>\<open>inverter_sn\<close> is absent from the query or is present with an empty
  value; the dashboard is then left as it was: the cycle that renders the charts has not
  run and no interval timer is set. When both parameters are present and not empty, init
  runs one cycle and, when the cycle has settled, sets the interval timer of 120000
  milliseconds.
\<close>

theorem init_requires_nonempty_parameters:
  "(entryId d = None \<or> entryId d = Some [] \<or> inverterSn d = None \<or> inverterSn d = Some []
      \<longrightarrow> init cycle d = InitRejected (Error MissingParameters) d)
 \<and> (\<forall>e s. entryId d = Some e \<and> e \<noteq> [] \<and> inverterSn d = Some s \<and> s \<noteq> [] \<longrightarrow>
       init cycle d =
         (case cycle d of
            None \<Rightarrow> InitNeverSettles
          | Some d1 \<Rightarrow> InitFulfilled (d1\<lparr>updateInterval := Some 120000\<rparr>)))"
  by (auto simp: init_def missing_def)

theorem init_requires_nonempty_parameters_witness:
  "entryId dashboard_no_entry = None
 \<and> init cycle_renders dashboard_no_entry
     = InitRejected (Error MissingParameters) dashboard_no_entry
 \<and> charts dashboard_no_entry = False \<and> updateInterval dashboard_no_entry = None
 \<and> entryId dashboard_both = Some ''abc'' \<and> inverterSn dashboard_both = Some ''2206237016''
 \<and> init cycle_renders dashboard_both
     = InitFulfilled (dashboard_both\<lparr>charts := True, updateInterval := Some 120000\<rparr>)"
proof -
  have n: "entryId dashboard_no_entry = None" "charts dashboard_no_entry = False"
    "updateInterval dashboard_no_entry = None"
    by (simp_all add: dashboard_no_entry_def)
  have b: "entryId dashboard_both = Some ''abc''" "inverterSn dashboard_both = Some ''2206237016''"
    by (simp_all add: dashboard_both_def)
  from init_requires_nonempty_parameters [of dashboard_no_entry cycle_renders]
    init_requires_nonempty_parameters [of dashboard_both cycle_renders] n b
  show ?thesis by (simp add: cycle_renders_def)
qed

text \<open>
  Claim C8, as stated, fails in its last part: with \<^verbatim>\<open>entry_id\<close> present but empty
  (the query \<^verbatim>\<open>?entry_id=&inverter_sn=2206237016\<close>) both parameters are present, and
  init is rejected all the same.
\<close>

theorem init_rejects_present_but_empty_parameter:
  "entryId dashboard_empty_entry = Some []
 \<and> inverterSn dashboard_empty_entry = Some ''2206237016''
 \<and> init cycle_renders dashboard_empty_entry
     = InitRejected (Error MissingParameters) dashboard_empty_entry"
  by (simp add: init_def missing_def dashboard_empty_entry_def)

end
